theory Spec2Isabelle
  imports Main "HOL-Library.Word"
begin

section \<open>grpc-health-probe: the probe of cmd/grpc-health-probe/main.go\<close>

text \<open>
  The program is one Go file: package-level configuration variables filled in by
  \<^verbatim>\<open>flag.Parse\<close>, an \<^verbatim>\<open>init\<close> function that validates them, and \<^verbatim>\<open>main\<close>, which dials
  the target, issues one health-check RPC and exits with a status code.

  The gRPC client library, the clock and the operating system are outside the file. They
  are an environment here: the two blocking library calls are functions of the arguments
  \<^verbatim>\<open>main\<close> passes them, each yielding a result and the time the call took, or nothing when the
  call never returns. Everything \<^verbatim>\<open>main\<close> does that is visible outside (lines logged, library
  calls made, deferred calls run) is recorded in order in a trace.
\<close>

subsection \<open>Library types used by the source\<close>

type_synonym Duration = int
  \<comment> \<open>\<^verbatim>\<open>time.Duration\<close>: nanoseconds; the source only compares durations with zero\<close>

type_synonym Code = "32 word"
  \<comment> \<open>\<^verbatim>\<open>codes.Code\<close> is a \<^verbatim>\<open>uint32\<close>\<close>

definition codes_Unknown :: Code where
  "codes_Unknown = 2"

definition codes_DeadlineExceeded :: Code where
  "codes_DeadlineExceeded = 4"

definition codes_Unimplemented :: Code where
  "codes_Unimplemented = 12"

record Status =
  Code :: Code
  Message :: string

text \<open>
  Go's \<^verbatim>\<open>error\<close> values as far as the source tells them apart: the two sentinel errors of
  package \<^verbatim>\<open>context\<close>, an error carrying a gRPC status, and any other error (with its text).
\<close>

datatype go_error =
    context_DeadlineExceeded
  | context_Canceled
  | statusError Code string
  | errorString string

fun Error :: "go_error \<Rightarrow> string" where
  "Error context_DeadlineExceeded = ''context deadline exceeded''"
| "Error context_Canceled = ''context canceled''"
| "Error (statusError c m) = m"
| "Error (errorString m) = m"

text \<open>
  \<^verbatim>\<open>status.FromError\<close> for a non-nil error: the status and \<^verbatim>\<open>true\<close> when the error carries one,
  otherwise a status with code Unknown and \<^verbatim>\<open>false\<close>.
\<close>

fun status_FromError :: "go_error \<Rightarrow> Status \<times> bool" where
  "status_FromError (statusError c m) = (\<lparr>Code = c, Message = m\<rparr>, True)"
| "status_FromError err = (\<lparr>Code = codes_Unknown, Message = Error err\<rparr>, False)"

type_synonym ServingStatus = "32 word"
  \<comment> \<open>\<^verbatim>\<open>HealthCheckResponse_ServingStatus\<close> is an \<^verbatim>\<open>int32\<close>\<close>

definition HealthCheckResponse_UNKNOWN :: ServingStatus where
  "HealthCheckResponse_UNKNOWN = 0"

definition HealthCheckResponse_SERVING :: ServingStatus where
  "HealthCheckResponse_SERVING = 1"

definition HealthCheckResponse_NOT_SERVING :: ServingStatus where
  "HealthCheckResponse_NOT_SERVING = 2"

definition HealthCheckResponse_SERVICE_UNKNOWN :: ServingStatus where
  "HealthCheckResponse_SERVICE_UNKNOWN = 3"

definition HealthCheckResponse_ServingStatus_name :: "(ServingStatus \<times> string) list" where
  "HealthCheckResponse_ServingStatus_name =
     [(0, ''UNKNOWN''), (1, ''SERVING''), (2, ''NOT_SERVING''), (3, ''SERVICE_UNKNOWN'')]"

function Itoa_nat :: "nat \<Rightarrow> string" where
  "Itoa_nat n =
     (if n < 10 then [char_of (48 + n)]
      else Itoa_nat (n div 10) @ [char_of (48 + n mod 10)])"
  by pat_completeness auto
termination
  by (relation "measure id") auto

declare Itoa_nat.simps [simp del]

definition Itoa :: "int \<Rightarrow> string" where
  "Itoa i = (if i < 0 then CHR ''-'' # Itoa_nat (nat (- i)) else Itoa_nat (nat i))"

text \<open>The enum's \<^verbatim>\<open>String\<close> method: the name of a known value, the decimal number otherwise.\<close>

definition ServingStatus_String :: "ServingStatus \<Rightarrow> string" where
  "ServingStatus_String x =
     (case map_of HealthCheckResponse_ServingStatus_name x of
        Some s \<Rightarrow> s
      | None \<Rightarrow> Itoa (sint x))"

record HealthCheckResponse =
  Status :: ServingStatus

text \<open>\<^verbatim>\<open>GetStatus\<close> on a response pointer; a nil pointer reads as UNKNOWN.\<close>

fun GetStatus :: "HealthCheckResponse option \<Rightarrow> ServingStatus" where
  "GetStatus None = HealthCheckResponse_UNKNOWN"
| "GetStatus (Some m) = Status m"

datatype DialOption =
    WithUserAgent string
  | WithBlock
  | WithInsecure
  | WithTransportCredentials string

text \<open>
  Contexts as the source builds them. A timeout is kept relative to the moment the context
  is made; the source makes each such context immediately before the call it bounds.
\<close>

datatype Context = Background | WithCancel Context | WithTimeout Context Duration

fun ctx_timeout :: "Context \<Rightarrow> Duration option" where
  "ctx_timeout Background = None"
| "ctx_timeout (WithCancel parent) = ctx_timeout parent"
| "ctx_timeout (WithTimeout parent d) =
     (case ctx_timeout parent of None \<Rightarrow> Some d | Some d' \<Rightarrow> Some (min d d'))"

type_synonym ClientConn = nat
  \<comment> \<open>a handle for the \<^verbatim>\<open>*grpc.ClientConn\<close> the dial returns\<close>

subsection \<open>Package-level variables and constants\<close>

record config =
  userAgent :: string
  remoteURL :: string
  serviceName :: string
  connTimeoutDur :: Duration
  rpcTimeoutDur :: Duration
  verbose :: bool

definition StatusInvalidArguments :: int where
  "StatusInvalidArguments = 1"

definition StatusConnectionFailure :: int where
  "StatusConnectionFailure = 2"

definition StatusRPCFailure :: int where
  "StatusRPCFailure = 3"

definition StatusUnhealthy :: int where
  "StatusUnhealthy = 4"

subsection \<open>The environment and the trace\<close>

text \<open>
  A blocking library call yields its Go result (the error, or the value) and the time it
  took, or \<open>None\<close> when it never returns. An interrupt signal reaches \<^verbatim>\<open>main\<close> only through
  these results: the listener goroutine cancels the root context, and the call in flight
  returns an error.
\<close>

record env =
  DialContext :: "Context \<Rightarrow> string \<Rightarrow> DialOption list \<Rightarrow> ((go_error + ClientConn) \<times> Duration) option"
  Check :: "ClientConn \<Rightarrow> Context \<Rightarrow> string \<Rightarrow> ((go_error + HealthCheckResponse) \<times> Duration) option"

datatype arg = S string | D Duration | E go_error | R "HealthCheckResponse option"

datatype event =
    log_Printf string "arg list"
  | log_Print "arg list"
  | grpc_DialContext Context string "DialOption list" Duration
  | Health_Check ClientConn Context string Duration
  | conn_Close ClientConn
  | cancel Context

record run =
  trace :: "event list"
  exit_code :: int

text \<open>
  The goroutine running \<^verbatim>\<open>main\<close>: what it has emitted so far and its stack of deferred calls.
  \<^verbatim>\<open>os.Exit\<close> ends the process at once and runs no deferred call; returning from \<^verbatim>\<open>main\<close> runs
  them, last deferred first, and the process exits with status 0.
\<close>

record proc =
  out :: "event list"
  deferred :: "event list"

definition emit :: "event \<Rightarrow> proc \<Rightarrow> proc" where
  "emit e s = s\<lparr>out := out s @ [e]\<rparr>"

definition go_defer :: "event \<Rightarrow> proc \<Rightarrow> proc" where
  "go_defer e s = s\<lparr>deferred := e # deferred s\<rparr>"

definition os_Exit :: "int \<Rightarrow> proc \<Rightarrow> run" where
  "os_Exit code s = \<lparr>trace = out s, exit_code = code\<rparr>"

definition return_main :: "proc \<Rightarrow> run" where
  "return_main s = \<lparr>trace = out s @ deferred s, exit_code = 0\<rparr>"

subsection \<open>init\<close>

text \<open>
  The variables hold what \<^verbatim>\<open>flag.Parse\<close> left in them. \<^verbatim>\<open>argError\<close> logs and exits, so the first
  failing check ends the process. The result is the lines logged and the exit status, if
  the process exited.
\<close>

definition argError :: "string \<Rightarrow> arg list \<Rightarrow> event list \<times> int option" where
  "argError s v = ([log_Printf (''error: '' @ s) v], Some StatusInvalidArguments)"

definition init :: "config \<Rightarrow> event list \<times> int option" where
  "init g =
     (if remoteURL g = '''' then argError ''--addr not specified'' []
      else if connTimeoutDur g \<le> 0 then
        argError ''--connect-timeout must be greater than zero (specified: %v)''
          [D (connTimeoutDur g)]
      else if rpcTimeoutDur g \<le> 0 then
        argError ''--rpc-timeout must be greater than zero (specified: %v)''
          [D (rpcTimeoutDur g)]
      else
        (if verbose g then
           [log_Printf ''parsed options:'' [],
            log_Printf ''> remoteUrl=%s conn-timeout=%v rpc-timeout=%v''
              [S (remoteURL g), D (connTimeoutDur g), D (rpcTimeoutDur g)]]
         else [], None))"

subsection \<open>main\<close>

definition main :: "config \<Rightarrow> env \<Rightarrow> run option" where
  "main g env =
     (let ctx = WithCancel Background;
          opts = [WithUserAgent (userAgent g), WithBlock];
          opts = opts @ [WithInsecure];
          s = \<lparr>out = [], deferred = []\<rparr>;
          s = (if verbose g then emit (log_Print [S ''establishing connection'']) s else s);
          dialCtx = WithTimeout ctx (connTimeoutDur g);
          s = go_defer (cancel dialCtx) s
      in case DialContext env dialCtx (remoteURL g) opts of
           None \<Rightarrow> None
         | Some (dialed, connDuration) \<Rightarrow>
             (let s = emit (grpc_DialContext dialCtx (remoteURL g) opts connDuration) s
              in case dialed of
                   Inl err \<Rightarrow>
                     Some (os_Exit StatusConnectionFailure
                       (if err = context_DeadlineExceeded then
                          emit (log_Printf ''timeout: failed to connect service %q within %v''
                                  [S (remoteURL g), D (connTimeoutDur g)]) s
                        else
                          emit (log_Printf ''error: failed to connect service at %q: %+v''
                                  [S (remoteURL g), E err]) s))
                 | Inr conn \<Rightarrow>
                     (let s = go_defer (conn_Close conn) s;
                          s = (if verbose g then
                                 emit (log_Printf ''connection establisted (took %v)''
                                         [D connDuration]) s
                               else s);
                          rpcCtx = WithTimeout ctx (rpcTimeoutDur g);
                          s = go_defer (cancel rpcCtx) s
                      in case Check env conn rpcCtx (serviceName g) of
                           None \<Rightarrow> None
                         | Some (checked, rpcDuration) \<Rightarrow>
                             (let s = emit (Health_Check conn rpcCtx (serviceName g) rpcDuration) s;
                                  resp = (case checked of Inl err \<Rightarrow> None | Inr m \<Rightarrow> Some m);
                                  s = emit (log_Print [R resp]) s
                              in case checked of
                                   Inl err \<Rightarrow>
                                     Some (os_Exit StatusRPCFailure
                                       (if snd (status_FromError err) \<and>
                                           Code (fst (status_FromError err)) = codes_Unimplemented then
                                          emit (log_Printf ''error: this server does not implement the grpc health protocol (grpc.health.v1.Health)'' []) s
                                        else if snd (status_FromError err) \<and>
                                           Code (fst (status_FromError err)) = codes_DeadlineExceeded then
                                          emit (log_Printf ''timeout: health rpc did not complete within %v''
                                                  [D (rpcTimeoutDur g)]) s
                                        else
                                          emit (log_Printf ''error: health rpc failed: %+v'' [E err]) s))
                                 | Inr m \<Rightarrow>
                                     (if GetStatus resp \<noteq> HealthCheckResponse_SERVING then
                                        Some (os_Exit StatusUnhealthy
                                          (emit (log_Printf ''service unhealthy (responded with %q)''
                                                   [S (ServingStatus_String (GetStatus resp))]) s))
                                      else
                                        (let s = (if verbose g then
                                                    emit (log_Printf ''time elapsed: connect=%v rpc=%v''
                                                            [D connDuration, D rpcDuration]) s
                                                  else s);
                                             s = emit (log_Printf ''status: %v''
                                                         [S (ServingStatus_String (GetStatus resp))]) s
                                         in Some (return_main s)))))))"

text \<open>The process: \<^verbatim>\<open>init\<close> runs before \<^verbatim>\<open>main\<close>; an exit in \<^verbatim>\<open>init\<close> ends it there.\<close>

definition program :: "config \<Rightarrow> env \<Rightarrow> run option" where
  "program g env =
     (case init g of
        (lines, Some code) \<Rightarrow> Some \<lparr>trace = lines, exit_code = code\<rparr>
      | (lines, None) \<Rightarrow> map_option (\<lambda>r. r\<lparr>trace := lines @ trace r\<rparr>) (main g env))"

subsection \<open>Reading a run\<close>

text \<open>
  The source computes no classification value: the branch a run ends in shows in the line
  it logs last and in the exit status. The classifications of a run are read off its trace,
  one for each such line, in the order logged.
\<close>

datatype classification =
    Healthy
  | Unhealthy
  | ProtocolUnimplemented
  | RPCTimeout
  | RPCFailure
  | ConnectionTimeout
  | ConnectionFailure

fun diagnosis :: "event \<Rightarrow> classification option" where
  "diagnosis (log_Printf f v) =
     (if f = ''timeout: failed to connect service %q within %v'' then Some ConnectionTimeout
      else if f = ''error: failed to connect service at %q: %+v'' then Some ConnectionFailure
      else if f = ''error: this server does not implement the grpc health protocol (grpc.health.v1.Health)''
        then Some ProtocolUnimplemented
      else if f = ''timeout: health rpc did not complete within %v'' then Some RPCTimeout
      else if f = ''error: health rpc failed: %+v'' then Some RPCFailure
      else if f = ''service unhealthy (responded with %q)'' then Some Unhealthy
      else if f = ''status: %v'' then Some Healthy
      else None)"
| "diagnosis e = None"

definition classifications :: "run \<Rightarrow> classification list" where
  "classifications r = List.map_filter diagnosis (trace r)"

definition outcome :: "run \<Rightarrow> classification list \<times> int" where
  "outcome r = (classifications r, exit_code r)"

text \<open>The library calls in a trace, and the time spent blocked in them.\<close>

fun is_dial :: "event \<Rightarrow> bool" where
  "is_dial (grpc_DialContext ctx target opts t) = True"
| "is_dial e = False"

fun is_rpc :: "event \<Rightarrow> bool" where
  "is_rpc (Health_Check conn ctx service t) = True"
| "is_rpc e = False"

fun is_close :: "event \<Rightarrow> bool" where
  "is_close (conn_Close conn) = True"
| "is_close e = False"

fun dial_options :: "event \<Rightarrow> DialOption list option" where
  "dial_options (grpc_DialContext ctx target opts t) = Some opts"
| "dial_options e = None"

fun blocked :: "event \<Rightarrow> Duration" where
  "blocked (grpc_DialContext ctx target opts t) = t"
| "blocked (Health_Check conn ctx service t) = t"
| "blocked e = 0"

definition blocking_time :: "event list \<Rightarrow> Duration" where
  "blocking_time tr = sum_list (map blocked tr)"

fun call_timeout :: "event \<Rightarrow> Duration option" where
  "call_timeout (grpc_DialContext ctx target opts t) = ctx_timeout ctx"
| "call_timeout (Health_Check conn ctx service t) = ctx_timeout ctx"
| "call_timeout e = None"

text \<open>The two calls as \<^verbatim>\<open>main\<close> makes them: the connect stage and the RPC stage of a run.\<close>

abbreviation connect_stage :: "config \<Rightarrow> env \<Rightarrow> ((go_error + ClientConn) \<times> Duration) option" where
  "connect_stage g env \<equiv>
     DialContext env (WithTimeout (WithCancel Background) (connTimeoutDur g)) (remoteURL g)
       [WithUserAgent (userAgent g), WithBlock, WithInsecure]"

abbreviation rpc_stage ::
  "config \<Rightarrow> env \<Rightarrow> ClientConn \<Rightarrow> ((go_error + HealthCheckResponse) \<times> Duration) option" where
  "rpc_stage g env conn \<equiv>
     Check env conn (WithTimeout (WithCancel Background) (rpcTimeoutDur g)) (serviceName g)"

text \<open>A configuration is validated when \<^verbatim>\<open>init\<close> lets the process go on to \<^verbatim>\<open>main\<close>.\<close>

definition validated :: "config \<Rightarrow> bool" where
  "validated g = (snd (init g) = None)"

text \<open>
  The library honours deadlines: a call under a context with a positive timeout returns,
  and no later than the timeout.
\<close>

definition honours_deadlines :: "env \<Rightarrow> bool" where
  "honours_deadlines env \<longleftrightarrow>
     (\<forall>ctx target opts d. ctx_timeout ctx = Some d \<longrightarrow> 0 < d \<longrightarrow>
        (\<exists>res t. DialContext env ctx target opts = Some (res, t) \<and> t \<le> d)) \<and>
     (\<forall>conn ctx service d. ctx_timeout ctx = Some d \<longrightarrow> 0 < d \<longrightarrow>
        (\<exists>res t. Check env conn ctx service = Some (res, t) \<and> t \<le> d))"

subsection \<open>The specification's controller\<close>

text \<open>
  The specification describes the probe as an operation \<^verbatim>\<open>Run\<close> that yields one classification
  from what the two stages return, and a table from classifications to exit codes. Both are
  written here from the specification's words, over the stage results without their
  timings, to be compared with \<^verbatim>\<open>main\<close>. A stage that never returns yields no outcome.
\<close>

definition spec_Run ::
  "(go_error + ClientConn) option \<Rightarrow> (ClientConn \<Rightarrow> (go_error + HealthCheckResponse) option) \<Rightarrow>
   classification option" where
  "spec_Run connected rpc =
     (case connected of
        None \<Rightarrow> None
      | Some (Inl err) \<Rightarrow>
          Some (if err = context_DeadlineExceeded then ConnectionTimeout else ConnectionFailure)
      | Some (Inr conn) \<Rightarrow>
          (case rpc conn of
             None \<Rightarrow> None
           | Some (Inl err) \<Rightarrow>
               Some (case err of
                       statusError c msg \<Rightarrow>
                         if c = codes_Unimplemented then ProtocolUnimplemented
                         else if c = codes_DeadlineExceeded then RPCTimeout
                         else RPCFailure
                     | _ \<Rightarrow> RPCFailure)
           | Some (Inr m) \<Rightarrow>
               Some (if Status m = HealthCheckResponse_SERVING then Healthy else Unhealthy)))"

fun spec_exit_code :: "classification \<Rightarrow> int" where
  "spec_exit_code ConnectionTimeout = 2"
| "spec_exit_code ConnectionFailure = 2"
| "spec_exit_code RPCTimeout = 3"
| "spec_exit_code RPCFailure = 3"
| "spec_exit_code ProtocolUnimplemented = 3"
| "spec_exit_code Unhealthy = 4"
| "spec_exit_code Healthy = 0"

subsection \<open>Example targets\<close>

text \<open>
  A call that would be answered with \<open>reply\<close> (never, when \<open>None\<close>), made under a context:
  the answer if it comes within the context's timeout, the expiry error at the timeout
  otherwise.
\<close>

definition answering ::
  "go_error \<Rightarrow> ((go_error + 'a) \<times> Duration) option \<Rightarrow> Context \<Rightarrow> ((go_error + 'a) \<times> Duration) option" where
  "answering expiry reply ctx =
     (case ctx_timeout ctx of
        None \<Rightarrow> reply
      | Some d \<Rightarrow>
          (case reply of
             None \<Rightarrow> Some (Inl expiry, max 0 d)
           | Some (res, t) \<Rightarrow> if t \<le> d then Some (res, t) else Some (Inl expiry, max 0 d)))"

definition target ::
  "((go_error + ClientConn) \<times> Duration) option \<Rightarrow>
   ((go_error + HealthCheckResponse) \<times> Duration) option \<Rightarrow> env" where
  "target dial_reply check_reply =
     \<lparr>DialContext = \<lambda>ctx addr opts. answering context_DeadlineExceeded dial_reply ctx,
      Check = \<lambda>conn ctx service.
        answering (statusError codes_DeadlineExceeded ''context deadline exceeded'') check_reply ctx\<rparr>"

definition serving_target :: env where
  "serving_target =
     target (Some (Inr 7, 1000)) (Some (Inr \<lparr>Status = HealthCheckResponse_SERVING\<rparr>, 2000))"

definition slow_serving_target :: env where
  "slow_serving_target =
     target (Some (Inr 7, 500000)) (Some (Inr \<lparr>Status = HealthCheckResponse_SERVING\<rparr>, 900000))"

definition not_serving_target :: env where
  "not_serving_target =
     target (Some (Inr 7, 1000)) (Some (Inr \<lparr>Status = HealthCheckResponse_NOT_SERVING\<rparr>, 2000))"

definition unimplemented_target :: env where
  "unimplemented_target =
     target (Some (Inr 7, 1000))
       (Some (Inl (statusError codes_Unimplemented ''unknown service grpc.health.v1.Health''), 2000))"

definition silent_target :: env where
  "silent_target = target None None"

definition localhost :: config where
  "localhost =
     \<lparr>userAgent = ''grpc-health-probe'', remoteURL = ''localhost:50051'', serviceName = '''',
      connTimeoutDur = 1000000000, rpcTimeoutDur = 1000000000, verbose = False\<rparr>"

section \<open>Properties\<close>

subsection \<open>Auxiliary facts\<close>

lemmas step_defs = emit_def go_defer_def os_Exit_def return_main_def

lemmas status_defs =
  StatusInvalidArguments_def StatusConnectionFailure_def StatusRPCFailure_def StatusUnhealthy_def

lemmas read_defs = outcome_def classifications_def List.map_filter_simps

lemmas example_defs =
  localhost_def serving_target_def slow_serving_target_def not_serving_target_def
  unimplemented_target_def silent_target_def target_def answering_def
  codes_Unimplemented_def codes_DeadlineExceeded_def
  HealthCheckResponse_SERVING_def HealthCheckResponse_NOT_SERVING_def

lemma validated_iff:
  "validated g \<longleftrightarrow> remoteURL g \<noteq> [] \<and> 0 < connTimeoutDur g \<and> 0 < rpcTimeoutDur g"
  by (simp add: validated_def init_def argError_def)

lemma validated_localhost: "validated localhost"
  by (simp add: validated_iff localhost_def)

lemma target_honours_deadlines: "honours_deadlines (target dial_reply check_reply)"
  by (auto simp: honours_deadlines_def target_def answering_def split: option.splits)

lemma honoured_connect:
  assumes "honours_deadlines env" and "0 < connTimeoutDur g"
  shows "\<exists>res t. connect_stage g env = Some (res, t) \<and> t \<le> connTimeoutDur g"
  using assms unfolding honours_deadlines_def
  by (metis ctx_timeout.simps option.simps(4))

lemma honoured_rpc:
  assumes "honours_deadlines env" and "0 < rpcTimeoutDur g"
  shows "\<exists>res t. rpc_stage g env conn = Some (res, t) \<and> t \<le> rpcTimeoutDur g"
  using assms unfolding honours_deadlines_def
  by (metis ctx_timeout.simps option.simps(4))

text \<open>A run along each path of \<^verbatim>\<open>main\<close>: what it is classified as and its exit status.\<close>

lemma main_connect_hangs:
  "connect_stage g env = None \<Longrightarrow> main g env = None"
  by (simp add: main_def Let_def)

lemma main_rpc_hangs:
  "connect_stage g env = Some (Inr conn, t1) \<Longrightarrow> rpc_stage g env conn = None \<Longrightarrow>
   main g env = None"
  by (simp add: main_def Let_def)

lemma outcome_connect_error:
  "connect_stage g env = Some (Inl err, t1) \<Longrightarrow>
   map_option outcome (main g env) =
     Some ([if err = context_DeadlineExceeded then ConnectionTimeout else ConnectionFailure], 2)"
  by (simp add: main_def Let_def step_defs read_defs status_defs)

lemma outcome_rpc_error:
  "connect_stage g env = Some (Inr conn, t1) \<Longrightarrow> rpc_stage g env conn = Some (Inl err, t2) \<Longrightarrow>
   map_option outcome (main g env) =
     Some ([case err of
              statusError c msg \<Rightarrow>
                if c = codes_Unimplemented then ProtocolUnimplemented
                else if c = codes_DeadlineExceeded then RPCTimeout
                else RPCFailure
            | _ \<Rightarrow> RPCFailure], 3)"
  by (cases err) (simp_all add: main_def Let_def step_defs read_defs status_defs)

lemma outcome_response:
  "connect_stage g env = Some (Inr conn, t1) \<Longrightarrow> rpc_stage g env conn = Some (Inr m, t2) \<Longrightarrow>
   map_option outcome (main g env) =
     Some (if Status m = HealthCheckResponse_SERVING then ([Healthy], 0) else ([Unhealthy], 4))"
  by (simp add: main_def Let_def step_defs read_defs status_defs)

text \<open>
  \<^verbatim>\<open>main\<close> refines the specification's \<^verbatim>\<open>Run\<close>: it ends in the classification \<^verbatim>\<open>Run\<close> yields, with
  the exit code the table gives, and does not return exactly when a stage does not.
\<close>

lemma main_refines_spec_Run:
  "map_option outcome (main g env) =
     map_option (\<lambda>c. ([c], spec_exit_code c))
       (spec_Run (map_option fst (connect_stage g env))
          (\<lambda>conn. map_option fst (rpc_stage g env conn)))"
proof (cases "connect_stage g env")
  case None
  then show ?thesis by (simp add: main_connect_hangs spec_Run_def)
next
  case (Some a)
  obtain dialed t1 where a: "a = (dialed, t1)" by (cases a)
  show ?thesis
  proof (cases dialed)
    case (Inl err)
    with Some a show ?thesis by (simp add: outcome_connect_error spec_Run_def)
  next
    case (Inr conn)
    note conn = Some [unfolded a Inr]
    show ?thesis
    proof (cases "rpc_stage g env conn")
      case None
      with conn show ?thesis by (simp add: main_rpc_hangs spec_Run_def)
    next
      case (Some b)
      obtain checked t2 where b: "b = (checked, t2)" by (cases b)
      show ?thesis
      proof (cases checked)
        case (Inl err)
        with conn Some b show ?thesis
          by (cases err) (simp_all add: outcome_rpc_error spec_Run_def)
      next
        case (Inr m)
        with conn Some b show ?thesis
          by (simp add: outcome_response spec_Run_def del: map_option_eq_Some)
      qed
    qed
  qed
qed

lemma program_outcome:
  "map_option outcome (program g env) =
     (if validated g then map_option outcome (main g env) else Some ([], 1))"
  by (simp add: validated_def program_def init_def argError_def outcome_def [abs_def]
        classifications_def [abs_def] List.map_filter_simps status_defs option.map_comp comp_def)

subsection \<open>Classification of a reachable target\<close>

text \<open>
  C1. When the connect stage yields a connection and the health-check RPC yields a
  response, the run returns; it is classified Healthy with exit code 0 if and only if the
  reported status is SERVING; for every other reported status it is classified Unhealthy
  with exit code 4, and the line it logs carries the name of the reported status.
\<close>

theorem serving_iff_healthy:
  assumes "connect_stage g env = Some (Inr conn, t1)"
      and "rpc_stage g env conn = Some (Inr m, t2)"
  shows "\<exists>r. main g env = Some r \<and>
           ((classifications r = [Healthy] \<and> exit_code r = 0) \<longleftrightarrow>
              Status m = HealthCheckResponse_SERVING) \<and>
           (Status m \<noteq> HealthCheckResponse_SERVING \<longrightarrow>
              classifications r = [Unhealthy] \<and> exit_code r = 4 \<and>
              log_Printf ''service unhealthy (responded with %q)''
                [S (ServingStatus_String (Status m))] \<in> set (trace r))"
  using assms
  by (simp add: main_def Let_def step_defs classifications_def List.map_filter_simps status_defs)

theorem serving_iff_healthy_witness:
  "connect_stage localhost not_serving_target = Some (Inr 7, 1000) \<and>
   rpc_stage localhost not_serving_target 7 =
     Some (Inr \<lparr>Status = HealthCheckResponse_NOT_SERVING\<rparr>, 2000) \<and>
   (\<exists>r. main localhost not_serving_target = Some r \<and>
        classifications r = [Unhealthy] \<and> exit_code r = 4 \<and>
        log_Printf ''service unhealthy (responded with %q)'' [S ''NOT_SERVING''] \<in> set (trace r))"
proof -
  have dial: "connect_stage localhost not_serving_target = Some (Inr 7, 1000)"
    by (simp add: example_defs)
  have rpc: "rpc_stage localhost not_serving_target 7 =
      Some (Inr \<lparr>Status = HealthCheckResponse_NOT_SERVING\<rparr>, 2000)"
    by (simp add: example_defs)
  have name: "ServingStatus_String HealthCheckResponse_NOT_SERVING = ''NOT_SERVING''"
    by (simp add: ServingStatus_String_def HealthCheckResponse_ServingStatus_name_def
          HealthCheckResponse_NOT_SERVING_def)
  have "HealthCheckResponse_NOT_SERVING \<noteq> HealthCheckResponse_SERVING"
    by (simp add: HealthCheckResponse_NOT_SERVING_def HealthCheckResponse_SERVING_def)
  with serving_iff_healthy [OF dial rpc] name dial rpc show ?thesis
    by auto
qed

subsection \<open>Connection failures\<close>

text \<open>
  C2. When the connect stage yields an error, the run returns classified ConnectionTimeout
  if the error is the context's deadline expiry and ConnectionFailure for any other error;
  in both cases the exit code is 2 and no health-check RPC is made.
\<close>

theorem connect_failure_exits_2:
  assumes "connect_stage g env = Some (Inl err, t1)"
  shows "\<exists>r. main g env = Some r \<and>
           classifications r =
             [if err = context_DeadlineExceeded then ConnectionTimeout else ConnectionFailure] \<and>
           exit_code r = 2 \<and> filter is_rpc (trace r) = []"
  using assms
  by (simp add: main_def Let_def step_defs classifications_def List.map_filter_simps status_defs)

theorem connect_failure_exits_2_witness:
  "connect_stage localhost silent_target = Some (Inl context_DeadlineExceeded, 1000000000) \<and>
   (\<exists>r. main localhost silent_target = Some r \<and> classifications r = [ConnectionTimeout] \<and>
        exit_code r = 2 \<and> filter is_rpc (trace r) = [])"
proof -
  have dial: "connect_stage localhost silent_target =
      Some (Inl context_DeadlineExceeded, 1000000000)"
    by (simp add: example_defs)
  from connect_failure_exits_2 [OF dial] dial show ?thesis
    by simp
qed

subsection \<open>RPC failures\<close>

text \<open>
  C3. When the connect stage yields a connection and the health-check RPC yields an error,
  the run returns with exit code 3, classified ProtocolUnimplemented if the error carries
  a status with code Unimplemented, RPCTimeout if it carries a status with code
  DeadlineExceeded (how the client reports the expiry of an RPC's deadline), and
  RPCFailure otherwise: for a status with any other code and for an error that carries no
  status.
\<close>

theorem rpc_error_exits_3:
  assumes "connect_stage g env = Some (Inr conn, t1)"
      and "rpc_stage g env conn = Some (Inl err, t2)"
  shows "\<exists>r. main g env = Some r \<and>
           classifications r =
             [case err of
                statusError c msg \<Rightarrow>
                  if c = codes_Unimplemented then ProtocolUnimplemented
                  else if c = codes_DeadlineExceeded then RPCTimeout
                  else RPCFailure
              | _ \<Rightarrow> RPCFailure] \<and>
           exit_code r = 3"
  using assms
  by (cases err)
    (simp_all add: main_def Let_def step_defs classifications_def List.map_filter_simps status_defs)

theorem rpc_error_exits_3_witness:
  "connect_stage localhost (target (Some (Inr 7, 1000)) None) = Some (Inr 7, 1000) \<and>
   rpc_stage localhost (target (Some (Inr 7, 1000)) None) 7 =
     Some (Inl (statusError codes_DeadlineExceeded ''context deadline exceeded''), 1000000000) \<and>
   (\<exists>r. main localhost (target (Some (Inr 7, 1000)) None) = Some r \<and>
        classifications r = [RPCTimeout] \<and> exit_code r = 3)"
proof -
  have dial: "connect_stage localhost (target (Some (Inr 7, 1000)) None) = Some (Inr 7, 1000)"
    by (simp add: example_defs)
  have rpc: "rpc_stage localhost (target (Some (Inr 7, 1000)) None) 7 =
      Some (Inl (statusError codes_DeadlineExceeded ''context deadline exceeded''), 1000000000)"
    by (simp add: example_defs)
  from rpc_error_exits_3 [OF dial rpc] dial rpc show ?thesis
    by (simp add: codes_Unimplemented_def codes_DeadlineExceeded_def)
qed

subsection \<open>Release of the connection\<close>

text \<open>
  A run closes the connection once if it returns from \<^verbatim>\<open>main\<close>, and not at all if it leaves
  through \<^verbatim>\<open>os.Exit\<close>.
\<close>

lemma conn_Close_only_on_return:
  assumes "main g env = Some r"
  shows "length (filter is_close (trace r)) = (if exit_code r = 0 then 1 else 0)"
proof (cases "connect_stage g env")
  case None
  with assms show ?thesis by (simp add: main_connect_hangs)
next
  case (Some a)
  obtain dialed t1 where a: "a = (dialed, t1)" by (cases a)
  show ?thesis
  proof (cases dialed)
    case (Inl err)
    with Some a assms show ?thesis
      by (auto simp: main_def Let_def step_defs status_defs)
  next
    case (Inr conn)
    note conn = Some [unfolded a Inr]
    show ?thesis
    proof (cases "rpc_stage g env conn")
      case None
      with conn assms show ?thesis by (simp add: main_rpc_hangs)
    next
      case (Some b)
      obtain checked t2 where b: "b = (checked, t2)" by (cases b)
      from conn Some b assms show ?thesis
        by (cases checked) (auto simp: main_def Let_def step_defs status_defs split: if_splits)
    qed
  qed
qed

text \<open>
  C4. The source defers \<^verbatim>\<open>conn.Close()\<close> once the dial has succeeded, but leaves every failing
  path of the RPC stage through \<^verbatim>\<open>os.Exit\<close>, which runs no deferred call. Against a target
  that answers the health-check RPC with Unimplemented the run exits with code 3, and
  against one that reports NOT_SERVING with code 4, in both cases without closing the
  connection it opened; only the run that returns from \<^verbatim>\<open>main\<close> (a SERVING target) closes it,
  once. So the connection is not released on every exit path out of the RPC stage.
\<close>

theorem os_Exit_skips_conn_Close:
  "map_option (\<lambda>r. (exit_code r, filter is_close (trace r))) (main localhost unimplemented_target) =
     Some (3, []) \<and>
   map_option (\<lambda>r. (exit_code r, filter is_close (trace r))) (main localhost not_serving_target) =
     Some (4, []) \<and>
   map_option (\<lambda>r. (exit_code r, filter is_close (trace r))) (main localhost serving_target) =
     Some (0, [conn_Close 7])"
  by (simp add: main_def Let_def step_defs example_defs status_defs)

subsection \<open>Invalid configurations\<close>

text \<open>
  C5. With an empty target address, a connect timeout that is not positive or an RPC
  timeout that is not positive, the process ends in \<^verbatim>\<open>init\<close> with exit code 1, and neither the
  dial nor the health-check RPC is made.
\<close>

theorem invalid_config_exits_1:
  assumes "remoteURL g = [] \<or> connTimeoutDur g \<le> 0 \<or> rpcTimeoutDur g \<le> 0"
  shows "\<exists>r. program g env = Some r \<and> exit_code r = 1 \<and>
           filter is_dial (trace r) = [] \<and> filter is_rpc (trace r) = []"
  using assms
  by (elim disjE) (simp_all add: program_def init_def argError_def status_defs)

theorem invalid_config_exits_1_witness:
  "(remoteURL (localhost\<lparr>rpcTimeoutDur := 0\<rparr>) = [] \<or>
    connTimeoutDur (localhost\<lparr>rpcTimeoutDur := 0\<rparr>) \<le> 0 \<or>
    rpcTimeoutDur (localhost\<lparr>rpcTimeoutDur := 0\<rparr>) \<le> 0) \<and>
   (\<exists>r. program (localhost\<lparr>rpcTimeoutDur := 0\<rparr>) serving_target = Some r \<and> exit_code r = 1 \<and>
        filter is_dial (trace r) = [] \<and> filter is_rpc (trace r) = [])"
  using invalid_config_exits_1 [of "localhost\<lparr>rpcTimeoutDur := 0\<rparr>" serving_target]
  by simp

subsection \<open>One classification for each run\<close>

text \<open>
  C6. With a validated configuration, a run returns whenever the library honours the
  deadlines of the contexts it is given, and every run that returns carries exactly one of
  the seven classifications: never none, never two.
\<close>

theorem exactly_one_classification:
  assumes "validated g"
  shows "(honours_deadlines env \<longrightarrow> (\<exists>r. main g env = Some r)) \<and>
         (\<forall>r. main g env = Some r \<longrightarrow> (\<exists>c. classifications r = [c]))"
proof
  from assms have pos: "0 < connTimeoutDur g" "0 < rpcTimeoutDur g"
    by (simp_all add: validated_iff)
  show "honours_deadlines env \<longrightarrow> (\<exists>r. main g env = Some r)"
  proof
    assume honoured: "honours_deadlines env"
    from honoured_connect [OF honoured pos(1)]
    obtain dialed t1 where dial: "connect_stage g env = Some (dialed, t1)"
      by blast
    have "map_option outcome (main g env) \<noteq> None"
    proof (cases dialed)
      case (Inl err)
      with dial show ?thesis
        by (simp add: outcome_connect_error del: map_option_is_None)
    next
      case (Inr conn)
      from honoured_rpc [OF honoured pos(2)]
      obtain checked t2 where rpc: "rpc_stage g env conn = Some (checked, t2)"
        by blast
      from dial Inr rpc show ?thesis
        by (cases checked)
          (simp_all add: outcome_rpc_error outcome_response del: map_option_is_None)
    qed
    then show "\<exists>r. main g env = Some r"
      by auto
  qed
next
  show "\<forall>r. main g env = Some r \<longrightarrow> (\<exists>c. classifications r = [c])"
  proof (intro allI impI)
    fix r
    assume "main g env = Some r"
    then have "map_option outcome (main g env) = Some (classifications r, exit_code r)"
      by (simp add: outcome_def)
    then have "\<exists>c. ([c], spec_exit_code c) = (classifications r, exit_code r)"
      unfolding main_refines_spec_Run by auto
    then show "\<exists>c. classifications r = [c]"
      by (metis prod.inject)
  qed
qed

theorem exactly_one_classification_witness:
  "validated localhost \<and> honours_deadlines silent_target \<and>
   (\<exists>r. main localhost silent_target = Some r \<and> classifications r = [ConnectionTimeout])"
proof -
  from exactly_one_classification [OF validated_localhost, of silent_target]
  obtain r where r: "main localhost silent_target = Some r"
    using target_honours_deadlines by (auto simp: silent_target_def)
  then have "map_option outcome (main localhost silent_target) = Some (classifications r, exit_code r)"
    by (simp add: outcome_def)
  moreover have "connect_stage localhost silent_target =
      Some (Inl context_DeadlineExceeded, 1000000000)"
    by (simp add: example_defs)
  ultimately have "classifications r = [ConnectionTimeout]"
    by (simp add: outcome_connect_error)
  with r validated_localhost target_honours_deadlines show ?thesis
    by (simp add: silent_target_def)
qed

subsection \<open>The verbose flag\<close>

text \<open>
  C7. Two processes whose configurations differ in the verbose flag only, run against the
  same environment, either both do not return or both return with the same
  classification and the same exit code.
\<close>

theorem verbose_only_diagnostic:
  "map_option outcome (program (g\<lparr>verbose := v\<rparr>) env) = map_option outcome (program g env)"
  by (simp add: program_outcome main_refines_spec_Run validated_iff)

subsection \<open>Termination within the two timeouts\<close>

text \<open>
  C8. With a validated configuration, and a library that honours the deadlines of the
  contexts it is given, a run returns; the time it spends blocked in library calls is at
  most the connect timeout plus the RPC timeout; and every dial it makes is under a
  context whose timeout is the connect timeout, every health-check RPC under a context
  whose timeout is the RPC timeout.
\<close>

theorem run_terminates_within_timeouts:
  assumes "validated g" and "honours_deadlines env"
  shows "\<exists>r. main g env = Some r \<and>
           blocking_time (trace r) \<le> connTimeoutDur g + rpcTimeoutDur g \<and>
           (\<forall>e \<in> set (trace r).
              (is_dial e \<longrightarrow> call_timeout e = Some (connTimeoutDur g)) \<and>
              (is_rpc e \<longrightarrow> call_timeout e = Some (rpcTimeoutDur g)))"
proof -
  from assms(1) have pos: "0 < connTimeoutDur g" "0 < rpcTimeoutDur g"
    by (simp_all add: validated_iff)
  from honoured_connect [OF assms(2) pos(1)]
  obtain dialed t1
    where dial: "connect_stage g env = Some (dialed, t1)" and t1: "t1 \<le> connTimeoutDur g"
    by blast
  show ?thesis
  proof (cases dialed)
    case (Inl err)
    with dial t1 pos show ?thesis
      by (simp add: main_def Let_def step_defs blocking_time_def)
  next
    case (Inr conn)
    from honoured_rpc [OF assms(2) pos(2)]
    obtain checked t2
      where rpc: "rpc_stage g env conn = Some (checked, t2)" and t2: "t2 \<le> rpcTimeoutDur g"
      by blast
    show ?thesis
    proof (cases checked)
      case (Inl err)
      with dial Inr rpc t1 t2 show ?thesis
        by (simp add: main_def Let_def step_defs blocking_time_def)
    next
      case (Inr m)
      with dial \<open>dialed = Inr conn\<close> rpc t1 t2 show ?thesis
        by (simp add: main_def Let_def step_defs blocking_time_def)
    qed
  qed
qed

theorem run_terminates_within_timeouts_witness:
  "validated localhost \<and> honours_deadlines (target (Some (Inr 7, 1000)) None) \<and>
   (\<exists>r. main localhost (target (Some (Inr 7, 1000)) None) = Some r \<and>
        blocking_time (trace r) \<le> connTimeoutDur localhost + rpcTimeoutDur localhost \<and>
        (\<forall>e \<in> set (trace r).
           (is_dial e \<longrightarrow> call_timeout e = Some (connTimeoutDur localhost)) \<and>
           (is_rpc e \<longrightarrow> call_timeout e = Some (rpcTimeoutDur localhost))))"
  using run_terminates_within_timeouts [OF validated_localhost target_honours_deadlines,
      of "Some (Inr 7, 1000)" None]
    validated_localhost target_honours_deadlines [of "Some (Inr 7, 1000)" None]
  by simp

subsection \<open>Runs against an unchanged target\<close>

text \<open>
  C9. A process takes nothing from an earlier run: its outcome is a function of its
  configuration and of what the two stages return. Two runs with the same configuration
  whose connect stages return the same result and whose health-check RPCs return the same
  result, whatever time each call takes, either both do not return or both return with
  the same classification and the same exit code.
\<close>

theorem same_target_same_outcome:
  assumes "map_option fst (connect_stage g env1) = map_option fst (connect_stage g env2)"
      and "\<forall>conn. map_option fst (rpc_stage g env1 conn) = map_option fst (rpc_stage g env2 conn)"
  shows "map_option outcome (program g env1) = map_option outcome (program g env2)"
  using assms by (simp add: program_outcome main_refines_spec_Run)

theorem same_target_same_outcome_witness:
  "map_option fst (connect_stage localhost serving_target) =
     map_option fst (connect_stage localhost slow_serving_target) \<and>
   (\<forall>conn. map_option fst (rpc_stage localhost serving_target conn) =
      map_option fst (rpc_stage localhost slow_serving_target conn)) \<and>
   serving_target \<noteq> slow_serving_target \<and>
   map_option outcome (program localhost serving_target) =
     map_option outcome (program localhost slow_serving_target)"
proof -
  have dial: "map_option fst (connect_stage localhost serving_target) =
      map_option fst (connect_stage localhost slow_serving_target)"
    by (simp add: example_defs)
  have rpc: "\<forall>conn. map_option fst (rpc_stage localhost serving_target conn) =
      map_option fst (rpc_stage localhost slow_serving_target conn)"
    by (simp add: example_defs)
  have "DialContext serving_target Background [] [] \<noteq> DialContext slow_serving_target Background [] []"
    by (simp add: example_defs)
  then have "serving_target \<noteq> slow_serving_target"
    by auto
  with same_target_same_outcome [OF dial rpc] dial rpc show ?thesis
    by simp
qed

subsection \<open>Transport options of the dial\<close>

text \<open>
  C10. Whatever the configuration, \<^verbatim>\<open>main\<close> dials with the options user agent, blocking and
  insecure, in this order and no others: what the library would do on a dial without the
  insecure or without the blocking option has no bearing on a run, and a run that returns
  has made exactly one dial, with exactly these three options.
\<close>

theorem dial_insecure_blocking:
  "main g (env\<lparr>DialContext := \<lambda>ctx addr opts.
       if WithInsecure \<in> set opts \<and> WithBlock \<in> set opts then DialContext env ctx addr opts
       else other ctx addr opts\<rparr>) = main g env \<and>
   (\<forall>r. main g env = Some r \<longrightarrow>
      List.map_filter dial_options (trace r) =
        [[WithUserAgent (userAgent g), WithBlock, WithInsecure]])"
proof
  show "main g (env\<lparr>DialContext := \<lambda>ctx addr opts.
       if WithInsecure \<in> set opts \<and> WithBlock \<in> set opts then DialContext env ctx addr opts
       else other ctx addr opts\<rparr>) = main g env"
    by (simp add: main_def cong: option.case_cong prod.case_cong sum.case_cong)
next
  show "\<forall>r. main g env = Some r \<longrightarrow>
      List.map_filter dial_options (trace r) =
        [[WithUserAgent (userAgent g), WithBlock, WithInsecure]]"
    by (auto simp: main_def Let_def step_defs List.map_filter_simps
        split: option.splits sum.splits prod.splits if_splits)
qed

theorem dial_insecure_blocking_witness:
  "\<exists>r. main localhost serving_target = Some r \<and>
     List.map_filter dial_options (trace r) =
       [[WithUserAgent ''grpc-health-probe'', WithBlock, WithInsecure]]"
proof -
  have "\<exists>r. main localhost serving_target = Some r"
    by (simp add: main_def Let_def example_defs)
  then obtain r where r: "main localhost serving_target = Some r" ..
  with dial_insecure_blocking [of localhost serving_target]
  have "List.map_filter dial_options (trace r) =
      [[WithUserAgent (userAgent localhost), WithBlock, WithInsecure]]"
    by blast
  with r show ?thesis
    by (simp add: localhost_def)
qed

end
